theory Spec2Isabelle
  imports Complex_Main "HOL-Library.Char_ord" "HOL-Library.List_Lexorder"
begin

section \<open>Data model\<close>

text \<open>
  The enums of \<^verbatim>\<open>lib/subject/type.ts\<close>, \<^verbatim>\<open>lib/trending/type.ts\<close> and \<^verbatim>\<open>lib/tag.ts\<close>.
  Their declarations are not part of the sources at hand; the members the code names are
  \<^verbatim>\<open>SubjectType.Book\<close>, \<^verbatim>\<open>SubjectType.Music\<close>, \<^verbatim>\<open>SubjectType.Anime\<close>,
  \<^verbatim>\<open>TrendingPeriod.Month\<close>, \<^verbatim>\<open>TrendingPeriod.Week\<close>, \<^verbatim>\<open>TagCat.Subject\<close> and the five
  cases of the \<^verbatim>\<open>switch (sort)\<close> in \<^verbatim>\<open>fetchSubjectIDsByFilter\<close>. The other members stand
  for whatever else the enums hold.
\<close>

datatype SubjectType = TypeBook | TypeAnime | TypeMusic | TypeGame | TypeReal

datatype TrendingPeriod = PeriodAll | PeriodDay | PeriodWeek | PeriodMonth

datatype SubjectSort = SortRank | SortTrends | SortCollects | SortDate | SortTitle

datatype TagCat = TagCatSubject | TagCatOther

text \<open>
  \<^verbatim>\<open>SubjectFilter\<close>: the fields \<^verbatim>\<open>fetchSubjectIDsByFilter\<close> reads. An optional field
  that is \<^verbatim>\<open>undefined\<close> is \<open>None\<close>.
\<close>

record SubjectFilter =
  filter_type :: SubjectType
  filter_nsfw :: "bool option"
  filter_cat :: "int option"
  filter_series :: "bool option"
  filter_year :: "int option"
  filter_month :: "int option"
  filter_tags :: "string list option"
  filter_ids :: "int list option"

text \<open>
  The response records of \<^verbatim>\<open>res.ts\<close>, with the fields the fetchers read
  (\<^verbatim>\<open>slim.id\<close>, \<^verbatim>\<open>slim.nsfw\<close>, \<^verbatim>\<open>item.nsfw\<close>) beside the identifier.
\<close>

record ISlimUser =
  slimUser_id :: int
  slimUser_username :: string
  slimUser_nickname :: string

record ISlimSubject =
  slimSubject_id :: int
  slimSubject_nsfw :: bool

record ISubject =
  subject_id :: int
  subject_nsfw :: bool

record ITopic =
  topic_id :: int

record IEpisode =
  episode_id :: int

record IPaged =
  paged_data :: "int list"
  paged_total :: int

record TrendingItem =
  item_id :: int
  item_total :: int

subsection \<open>The relational store\<close>

text \<open>Rows carry the columns the queries of the fetchers and of the trending job name.\<close>

record chiiUsers_row =
  users_id :: int
  users_username :: string

record chiiSubjects_row =
  subjects_id :: int
  subjects_typeID :: SubjectType
  subjects_ban :: int
  subjects_nsfw :: bool
  subjects_platform :: int
  subjects_series :: bool
  subjects_collect :: int
  subjects_name :: string

record chiiSubjectFields_row =
  fields_id :: int
  fields_year :: int
  fields_month :: int
  fields_rank :: int
  fields_date :: string

record chiiTopics_row =
  topics_id :: int

record chiiEpisodes_row =
  episodes_id :: int
  episodes_ban :: int

record chiiTagIndex_row =
  tagIndex_id :: int
  tagIndex_cat :: TagCat
  tagIndex_type :: SubjectType
  tagIndex_name :: string

record chiiTagList_row =
  tagList_mainID :: int
  tagList_cat :: TagCat
  tagList_type :: SubjectType
  tagList_tagID :: int

record chiiSubjectInterests_row =
  interests_subjectID :: int
  interests_doingDateline :: int
  interests_updatedAt :: int

record Store =
  chiiUsers :: "chiiUsers_row list"
  chiiSubjects :: "chiiSubjects_row list"
  chiiSubjectFields :: "chiiSubjectFields_row list"
  chiiSubjectTopics :: "chiiTopics_row list"
  chiiGroupTopics :: "chiiTopics_row list"
  chiiEpisodes :: "chiiEpisodes_row list"
  chiiTagIndex :: "chiiTagIndex_row list"
  chiiTagList :: "chiiTagList_row list"
  chiiSubjectInterests :: "chiiSubjectInterests_row list"

subsection \<open>The key-value cache and the trace of calls\<close>

text \<open>
  Cache keys are built by one function per entity kind (\<^verbatim>\<open>getSubjectSlimCacheKey(id)\<close> and
  its siblings); \<^verbatim>\<open>getSubjectTrendingKey\<close> of the trending job builds
  \<^verbatim>\<open>trending:subjects:<type>:<period>\<close> and the lock key is \<^verbatim>\<open>lock:<key>\<close>. Each
  key function is a constructor here. The lock entries are indexed by the key they
  lock, and \<open>LockKey\<close> is the function that prefixes \<^verbatim>\<open>lock:\<close>.
\<close>

datatype cache_key =
    UserSlimKey int
  | SubjectSlimKey int
  | SubjectItemKey int
  | SubjectEpKey int
  | SubjectTopicKey int
  | GroupTopicKey int
  | SubjectListKey SubjectFilter SubjectSort int
  | SubjectTrendingKey SubjectType TrendingPeriod
  | LockKey cache_key

datatype table =
  Users | Subjects | SubjectTopics | GroupTopics | Episodes

datatype query =
    SelectByID table int
  | SelectByIDs table "int list"
  | SelectTagIndex SubjectType "string list"
  | SelectTagList SubjectType "int list"
  | CountSubjects
  | SelectSubjectPage int int
  | AggregateInterests SubjectType int

datatype event =
    CacheGet cache_key
  | CacheMGet "cache_key list"
  | CacheSet cache_key "int option"
  | CacheDel cache_key
  | StoreQuery query
  | LogInfo string
  | LogError string

text \<open>
  A cache entry is the stored value with the expiry it was written with (seconds;
  \<open>None\<close> when written without one). \<^verbatim>\<open>JSON.parse(JSON.stringify(x))\<close> gives back
  \<open>x\<close>, and \<^verbatim>\<open>JSON.parse(cached) as T\<close> is an unchecked cast, so each key space holds
  values of the type its readers cast to. Every writer stores a JSON text or the
  sentinel \<^verbatim>\<open>1\<close>, never the empty string, so \<^verbatim>\<open>if (cached)\<close> tests presence.
\<close>

type_synonym 'v entry = "'v \<times> int option"

record world =
  userSlim :: "int \<rightharpoonup> ISlimUser entry"
  subjectSlim :: "int \<rightharpoonup> ISlimSubject entry"
  subjectItem :: "int \<rightharpoonup> ISubject entry"
  subjectEp :: "int \<rightharpoonup> IEpisode entry"
  subjectTopic :: "int \<rightharpoonup> ITopic entry"
  groupTopic :: "int \<rightharpoonup> ITopic entry"
  subjectList :: "SubjectFilter \<times> SubjectSort \<times> int \<rightharpoonup> IPaged entry"
  trendingSubjects :: "SubjectType \<times> TrendingPeriod \<rightharpoonup> TrendingItem list entry"
  locks :: "cache_key \<rightharpoonup> int entry"
  trace :: "event list"

definition emit :: "event \<Rightarrow> world \<Rightarrow> world" where
  "emit e s = s\<lparr>trace := trace s @ [e]\<rparr>"

definition redis_get ::
  "(world \<Rightarrow> 'k \<rightharpoonup> 'v entry) \<Rightarrow> ('k \<Rightarrow> cache_key) \<Rightarrow> 'k \<Rightarrow> world \<Rightarrow> 'v option \<times> world" where
  "redis_get space key k s = (map_option fst (space s k), emit (CacheGet (key k)) s)"

definition redis_mget ::
  "(world \<Rightarrow> 'k \<rightharpoonup> 'v entry) \<Rightarrow> ('k \<Rightarrow> cache_key) \<Rightarrow> 'k list \<Rightarrow> world
    \<Rightarrow> 'v option list \<times> world" where
  "redis_mget space key ks s =
     (map (\<lambda>k. map_option fst (space s k)) ks, emit (CacheMGet (map key ks)) s)"

definition redis_setex ::
  "((('k \<rightharpoonup> 'v entry) \<Rightarrow> ('k \<rightharpoonup> 'v entry)) \<Rightarrow> world \<Rightarrow> world) \<Rightarrow> ('k \<Rightarrow> cache_key)
    \<Rightarrow> 'k \<Rightarrow> int \<Rightarrow> 'v \<Rightarrow> world \<Rightarrow> world" where
  "redis_setex upd key k seconds v s =
     emit (CacheSet (key k) (Some seconds)) (upd (\<lambda>m. m(k \<mapsto> (v, Some seconds))) s)"

definition redis_set ::
  "((('k \<rightharpoonup> 'v entry) \<Rightarrow> ('k \<rightharpoonup> 'v entry)) \<Rightarrow> world \<Rightarrow> world) \<Rightarrow> ('k \<Rightarrow> cache_key)
    \<Rightarrow> 'k \<Rightarrow> 'v \<Rightarrow> world \<Rightarrow> world" where
  "redis_set upd key k v s =
     emit (CacheSet (key k) None) (upd (\<lambda>m. m(k \<mapsto> (v, None))) s)"

definition redis_del ::
  "((('k \<rightharpoonup> 'v entry) \<Rightarrow> ('k \<rightharpoonup> 'v entry)) \<Rightarrow> world \<Rightarrow> world) \<Rightarrow> ('k \<Rightarrow> cache_key)
    \<Rightarrow> 'k \<Rightarrow> world \<Rightarrow> world" where
  "redis_del upd key k s = emit (CacheDel (key k)) (upd (\<lambda>m. m(k := None)) s)"

definition db_query :: "query \<Rightarrow> world \<Rightarrow> world" where
  "db_query q s = emit (StoreQuery q) s"

definition ONE_MONTH :: int where
  "ONE_MONTH = 2592000"

text \<open>The events of a trace that are calls to the relational store.\<close>

fun is_store_query :: "event \<Rightarrow> bool" where
  "is_store_query (StoreQuery q) = True"
| "is_store_query e = False"

fun is_cache_call :: "event \<Rightarrow> bool" where
  "is_cache_call (CacheGet k) = True"
| "is_cache_call (CacheMGet ks) = True"
| "is_cache_call (CacheSet k t) = True"
| "is_cache_call (CacheDel k) = True"
| "is_cache_call e = False"

section \<open>Entity fetchers (\<^verbatim>\<open>lib/types/fetcher.ts\<close>)\<close>

text \<open>
  The inner join of \<^verbatim>\<open>chii_subjects\<close> with \<^verbatim>\<open>chii_subject_fields\<close> on the subject id.
\<close>

definition subjectsJoinFields :: "Store \<Rightarrow> (chiiSubjects_row \<times> chiiSubjectFields_row) list" where
  "subjectsJoinFields db =
     concat (map (\<lambda>s. map (\<lambda>f. (s, f))
       (filter (\<lambda>f. subjects_id s = fields_id f) (chiiSubjectFields db))) (chiiSubjects db))"

text \<open>
  \<^verbatim>\<open>fetchSlimSubjectByID(id, allowNsfw)\<close>. \<^verbatim>\<open>convert.toSlimSubject\<close> is a parameter:
  \<^verbatim>\<open>convert.ts\<close> is not among the sources.
\<close>

definition fetchSlimSubjectByID ::
  "(chiiSubjects_row \<Rightarrow> chiiSubjectFields_row \<Rightarrow> ISlimSubject) \<Rightarrow> Store \<Rightarrow> int \<Rightarrow> bool
    \<Rightarrow> world \<Rightarrow> ISlimSubject option \<times> world" where
  "fetchSlimSubjectByID toSlimSubject db i allowNsfw s =
     (let (cached, s1) = redis_get subjectSlim SubjectSlimKey i s in
      case cached of
        Some slim \<Rightarrow>
          if \<not> allowNsfw \<and> slimSubject_nsfw slim then (None, s1) else (Some slim, s1)
      | None \<Rightarrow>
          (let s2 = db_query (SelectByID Subjects i) s1;
               rows = filter (\<lambda>(sj, sf). subjects_id sj = i \<and> subjects_ban sj \<noteq> 1)
                        (subjectsJoinFields db)
           in case rows of
                [] \<Rightarrow> (None, s2)
              | (sj, sf) # rest \<Rightarrow>
                  (let slim = toSlimSubject sj sf;
                       s3 = redis_setex subjectSlim_update SubjectSlimKey i ONE_MONTH slim s2
                   in if \<not> allowNsfw \<and> slimSubject_nsfw slim then (None, s3)
                      else (Some slim, s3))))"

text \<open>\<^verbatim>\<open>fetchSubjectByID(id, allowNsfw)\<close>, with \<^verbatim>\<open>convert.toSubject\<close> as a parameter.\<close>

definition fetchSubjectByID ::
  "(chiiSubjects_row \<Rightarrow> chiiSubjectFields_row \<Rightarrow> ISubject) \<Rightarrow> Store \<Rightarrow> int \<Rightarrow> bool
    \<Rightarrow> world \<Rightarrow> ISubject option \<times> world" where
  "fetchSubjectByID toSubject db i allowNsfw s =
     (let (cached, s1) = redis_get subjectItem SubjectItemKey i s in
      case cached of
        Some item \<Rightarrow>
          if \<not> allowNsfw \<and> subject_nsfw item then (None, s1) else (Some item, s1)
      | None \<Rightarrow>
          (let s2 = db_query (SelectByID Subjects i) s1;
               rows = filter (\<lambda>(sj, sf). subjects_id sj = i \<and> subjects_ban sj \<noteq> 1)
                        (subjectsJoinFields db)
           in case rows of
                [] \<Rightarrow> (None, s2)
              | (sj, sf) # rest \<Rightarrow>
                  (let item = toSubject sj sf;
                       s3 = redis_setex subjectItem_update SubjectItemKey i ONE_MONTH item s2
                   in if \<not> allowNsfw \<and> subject_nsfw item then (None, s3)
                      else (Some item, s3))))"

text \<open>
  \<^verbatim>\<open>lo.uniq(ids)\<close> keeps the first occurrence of every element, in order
  (\<open>remdups\<close> keeps the last one).
\<close>

definition uniq :: "'a list \<Rightarrow> 'a list" where
  "uniq xs = rev (remdups (rev xs))"

text \<open>
  The first loop of a batch fetcher, over \<^verbatim>\<open>ids.entries()\<close> and the answer of
  \<^verbatim>\<open>redis.mget\<close>: a cached record goes to \<^verbatim>\<open>result\<close> unless the request may not see it
  (\<^verbatim>\<open>continue\<close>), an id with no cached record goes to \<^verbatim>\<open>missing\<close>. \<open>hidden\<close> is the
  test \<^verbatim>\<open>!allowNsfw && slim.nsfw\<close> where the fetcher has one, and constantly false where
  it has none.
\<close>

fun collectCached ::
  "('v \<Rightarrow> bool) \<Rightarrow> (int \<times> 'v option) list \<Rightarrow> (int \<rightharpoonup> 'v) \<Rightarrow> int list
    \<Rightarrow> (int \<rightharpoonup> 'v) \<times> int list" where
  "collectCached hidden [] result missing = (result, missing)"
| "collectCached hidden ((i, None) # rest) result missing =
     collectCached hidden rest result (missing @ [i])"
| "collectCached hidden ((i, Some v) # rest) result missing =
     (if hidden v then collectCached hidden rest result missing
      else collectCached hidden rest (result(i \<mapsto> v)) missing)"

definition visible :: "bool \<Rightarrow> bool \<Rightarrow> bool" where
  "visible allowNsfw nsfw = (allowNsfw \<or> \<not> nsfw)"

subsection \<open>Users\<close>

text \<open>The second loop of \<^verbatim>\<open>fetchSlimUsersByIDs\<close>, over the rows the store returned.\<close>

fun storeSlimUsers ::
  "(chiiUsers_row \<Rightarrow> ISlimUser) \<Rightarrow> chiiUsers_row list \<Rightarrow> (int \<rightharpoonup> ISlimUser) \<Rightarrow> world
    \<Rightarrow> (int \<rightharpoonup> ISlimUser) \<times> world" where
  "storeSlimUsers toSlimUser [] result s = (result, s)"
| "storeSlimUsers toSlimUser (d # data) result s =
     (let slim = toSlimUser d;
          s1 = redis_setex userSlim_update UserSlimKey (slimUser_id slim) ONE_MONTH slim s
      in storeSlimUsers toSlimUser data (result(slimUser_id slim \<mapsto> slim)) s1)"

text \<open>
  \<^verbatim>\<open>fetchSlimUsersByIDs(ids)\<close>. The query \<^verbatim>\<open>where id in (missing)\<close> is not guarded by
  \<^verbatim>\<open>missing.length > 0\<close> in this fetcher.
\<close>

definition fetchSlimUsersByIDs ::
  "(chiiUsers_row \<Rightarrow> ISlimUser) \<Rightarrow> Store \<Rightarrow> int list \<Rightarrow> world
    \<Rightarrow> (int \<rightharpoonup> ISlimUser) \<times> world" where
  "fetchSlimUsersByIDs toSlimUser db ids0 s =
     (if length ids0 = 0 then (Map.empty, s)
      else
        (let ids = uniq ids0;
             (cached, s1) = redis_mget userSlim UserSlimKey ids s;
             (result, missing) = collectCached (\<lambda>v. False) (zip ids cached) Map.empty [];
             s2 = db_query (SelectByIDs Users missing) s1;
             data = filter (\<lambda>d. users_id d \<in> set missing) (chiiUsers db)
         in storeSlimUsers toSlimUser data result s2))"

subsection \<open>Slim subjects\<close>

fun storeSlimSubjects ::
  "(chiiSubjects_row \<Rightarrow> chiiSubjectFields_row \<Rightarrow> ISlimSubject) \<Rightarrow> bool
    \<Rightarrow> (chiiSubjects_row \<times> chiiSubjectFields_row) list \<Rightarrow> (int \<rightharpoonup> ISlimSubject) \<Rightarrow> world
    \<Rightarrow> (int \<rightharpoonup> ISlimSubject) \<times> world" where
  "storeSlimSubjects toSlimSubject allowNsfw [] result s = (result, s)"
| "storeSlimSubjects toSlimSubject allowNsfw ((sj, sf) # data) result s =
     (let slim = toSlimSubject sj sf;
          s1 = redis_setex subjectSlim_update SubjectSlimKey (subjects_id sj) ONE_MONTH slim s
      in if \<not> allowNsfw \<and> slimSubject_nsfw slim
         then storeSlimSubjects toSlimSubject allowNsfw data result s1
         else storeSlimSubjects toSlimSubject allowNsfw data
                (result(subjects_id sj \<mapsto> slim)) s1)"

text \<open>\<^verbatim>\<open>fetchSlimSubjectsByIDs(ids, allowNsfw)\<close>.\<close>

definition fetchSlimSubjectsByIDs ::
  "(chiiSubjects_row \<Rightarrow> chiiSubjectFields_row \<Rightarrow> ISlimSubject) \<Rightarrow> Store \<Rightarrow> int list \<Rightarrow> bool
    \<Rightarrow> world \<Rightarrow> (int \<rightharpoonup> ISlimSubject) \<times> world" where
  "fetchSlimSubjectsByIDs toSlimSubject db ids0 allowNsfw s =
     (if length ids0 = 0 then (Map.empty, s)
      else
        (let ids = uniq ids0;
             (cached, s1) = redis_mget subjectSlim SubjectSlimKey ids s;
             (result, missing) =
                collectCached (\<lambda>slim. \<not> allowNsfw \<and> slimSubject_nsfw slim) (zip ids cached)
                  Map.empty []
         in if length missing > 0
            then
              (let s2 = db_query (SelectByIDs Subjects missing) s1;
                   data = filter (\<lambda>(sj, sf). subjects_id sj \<in> set missing \<and> subjects_ban sj \<noteq> 1)
                            (subjectsJoinFields db)
               in storeSlimSubjects toSlimSubject allowNsfw data result s2)
            else (result, s1)))"

subsection \<open>Topics\<close>

fun storeSubjectTopics ::
  "(chiiTopics_row \<Rightarrow> ITopic) \<Rightarrow> chiiTopics_row list \<Rightarrow> (int \<rightharpoonup> ITopic) \<Rightarrow> world
    \<Rightarrow> (int \<rightharpoonup> ITopic) \<times> world" where
  "storeSubjectTopics toSubjectTopic [] result s = (result, s)"
| "storeSubjectTopics toSubjectTopic (d # data) result s =
     (let topic = toSubjectTopic d;
          result1 = result(topics_id d \<mapsto> topic);
          s1 = redis_setex subjectTopic_update SubjectTopicKey (topics_id d) 86400 topic s
      in storeSubjectTopics toSubjectTopic data result1 s1)"

text \<open>\<^verbatim>\<open>fetchSubjectTopicsByIDs(ids)\<close>: no test of \<^verbatim>\<open>ids.length\<close>, no \<^verbatim>\<open>lo.uniq\<close>.\<close>

definition fetchSubjectTopicsByIDs ::
  "(chiiTopics_row \<Rightarrow> ITopic) \<Rightarrow> Store \<Rightarrow> int list \<Rightarrow> world \<Rightarrow> (int \<rightharpoonup> ITopic) \<times> world" where
  "fetchSubjectTopicsByIDs toSubjectTopic db ids s =
     (let (cached, s1) = redis_mget subjectTopic SubjectTopicKey ids s;
          (result, missing) = collectCached (\<lambda>v. False) (zip ids cached) Map.empty []
      in if length missing > 0
         then
           (let s2 = db_query (SelectByIDs SubjectTopics missing) s1;
                data = filter (\<lambda>d. topics_id d \<in> set missing) (chiiSubjectTopics db)
            in storeSubjectTopics toSubjectTopic data result s2)
         else (result, s1))"

fun storeGroupTopics ::
  "(chiiTopics_row \<Rightarrow> ITopic) \<Rightarrow> chiiTopics_row list \<Rightarrow> (int \<rightharpoonup> ITopic) \<Rightarrow> world
    \<Rightarrow> (int \<rightharpoonup> ITopic) \<times> world" where
  "storeGroupTopics toGroupTopic [] result s = (result, s)"
| "storeGroupTopics toGroupTopic (d # data) result s =
     (let topic = toGroupTopic d;
          result1 = result(topics_id d \<mapsto> topic);
          s1 = redis_setex groupTopic_update GroupTopicKey (topics_id d) 86400 topic s
      in storeGroupTopics toGroupTopic data result1 s1)"

text \<open>\<^verbatim>\<open>fetchGroupTopicsByIDs(ids)\<close>.\<close>

definition fetchGroupTopicsByIDs ::
  "(chiiTopics_row \<Rightarrow> ITopic) \<Rightarrow> Store \<Rightarrow> int list \<Rightarrow> world \<Rightarrow> (int \<rightharpoonup> ITopic) \<times> world" where
  "fetchGroupTopicsByIDs toGroupTopic db ids s =
     (let (cached, s1) = redis_mget groupTopic GroupTopicKey ids s;
          (result, missing) = collectCached (\<lambda>v. False) (zip ids cached) Map.empty []
      in if length missing > 0
         then
           (let s2 = db_query (SelectByIDs GroupTopics missing) s1;
                data = filter (\<lambda>d. topics_id d \<in> set missing) (chiiGroupTopics db)
            in storeGroupTopics toGroupTopic data result s2)
         else (result, s1))"

subsection \<open>Episodes\<close>

text \<open>\<^verbatim>\<open>fetchEpisodeByID(episodeID)\<close>: the store query excludes \<^verbatim>\<open>ban = 1\<close>.\<close>

definition fetchEpisodeByID ::
  "(chiiEpisodes_row \<Rightarrow> IEpisode) \<Rightarrow> Store \<Rightarrow> int \<Rightarrow> world \<Rightarrow> IEpisode option \<times> world" where
  "fetchEpisodeByID toEpisode db episodeID s =
     (let (cached, s1) = redis_get subjectEp SubjectEpKey episodeID s in
      case cached of
        Some item \<Rightarrow> (Some item, s1)
      | None \<Rightarrow>
          (let s2 = db_query (SelectByID Episodes episodeID) s1;
               rows = filter (\<lambda>d. episodes_id d = episodeID \<and> episodes_ban d \<noteq> 1)
                        (chiiEpisodes db)
           in case rows of
                [] \<Rightarrow> (None, s2)
              | d # rest \<Rightarrow>
                  (let item = toEpisode d;
                       s3 = redis_setex subjectEp_update SubjectEpKey episodeID ONE_MONTH item s2
                   in (Some item, s3))))"

fun storeEpisodes ::
  "(chiiEpisodes_row \<Rightarrow> IEpisode) \<Rightarrow> chiiEpisodes_row list \<Rightarrow> (int \<rightharpoonup> IEpisode) \<Rightarrow> world
    \<Rightarrow> (int \<rightharpoonup> IEpisode) \<times> world" where
  "storeEpisodes toEpisode [] result s = (result, s)"
| "storeEpisodes toEpisode (d # data) result s =
     (let item = toEpisode d;
          s1 = redis_setex subjectEp_update SubjectEpKey (episodes_id d) ONE_MONTH item s
      in storeEpisodes toEpisode data (result(episodes_id d \<mapsto> item)) s1)"

text \<open>
  \<^verbatim>\<open>fetchEpisodesByIDs(episodeIDs)\<close>: the store query is \<^verbatim>\<open>where id in (missing)\<close> alone,
  with no predicate on \<^verbatim>\<open>ban\<close>.
\<close>

definition fetchEpisodesByIDs ::
  "(chiiEpisodes_row \<Rightarrow> IEpisode) \<Rightarrow> Store \<Rightarrow> int list \<Rightarrow> world
    \<Rightarrow> (int \<rightharpoonup> IEpisode) \<times> world" where
  "fetchEpisodesByIDs toEpisode db episodeIDs s =
     (let (cached, s1) = redis_mget subjectEp SubjectEpKey episodeIDs s;
          (result, missing) = collectCached (\<lambda>v. False) (zip episodeIDs cached) Map.empty []
      in if length missing > 0
         then
           (let s2 = db_query (SelectByIDs Episodes missing) s1;
                data = filter (\<lambda>d. episodes_id d \<in> set missing) (chiiEpisodes db)
            in storeEpisodes toEpisode data result s2)
         else (result, s1))"

subsection \<open>Filtered, sorted and paged subject ids\<close>

text \<open>
  Modelled from the spec: \<^verbatim>\<open>getTrendingSubjectKey\<close> of \<^verbatim>\<open>lib/trending/cache.ts\<close>, which is
  not among the sources. The spec has the list cache "resolve the current ranked id list
  from TrendingAggregator's cache output", so the key is the one the trending job writes.
\<close>

definition getTrendingSubjectKey :: "SubjectType \<times> TrendingPeriod \<Rightarrow> cache_key" where
  "getTrendingSubjectKey k = SubjectTrendingKey (fst k) (snd k)"

text \<open>
  \<^verbatim>\<open>getSubjectListCacheKey(filter, sort, page)\<close> is computed from the filter as it is on
  entry, before the function assigns to \<^verbatim>\<open>filter.ids\<close>.
\<close>

definition getSubjectListCacheKey :: "SubjectFilter \<times> SubjectSort \<times> int \<Rightarrow> cache_key" where
  "getSubjectListCacheKey k = SubjectListKey (fst k) (fst (snd k)) (snd (snd k))"

text \<open>
  The two tag queries: tag names (normalised by \<^verbatim>\<open>t.normalize('NFKC')\<close>, a parameter
  here) to tag index ids, then \<^verbatim>\<open>selectDistinct\<close> of the main ids of those tags. The test
  \<^verbatim>\<open>if (!tagIndexes)\<close> between them is on an array, which is never falsy, so no run
  takes its branch.
\<close>

definition tagIndexIDs :: "(string \<Rightarrow> string) \<Rightarrow> Store \<Rightarrow> SubjectType \<Rightarrow> string list \<Rightarrow> int list" where
  "tagIndexIDs nfkc db ty tags =
     map tagIndex_id
       (filter (\<lambda>d. tagIndex_cat d = TagCatSubject \<and> tagIndex_type d = ty
                   \<and> tagIndex_name d \<in> set (map nfkc tags))
          (chiiTagIndex db))"

definition tagSubjectIDs :: "(string \<Rightarrow> string) \<Rightarrow> Store \<Rightarrow> SubjectType \<Rightarrow> string list \<Rightarrow> int list" where
  "tagSubjectIDs nfkc db ty tags =
     uniq (map tagList_mainID
       (filter (\<lambda>d. tagList_cat d = TagCatSubject \<and> tagList_type d = ty
                   \<and> tagList_tagID d \<in> set (tagIndexIDs nfkc db ty tags))
          (chiiTagList db)))"

text \<open>
  The assignments to \<^verbatim>\<open>filter.ids\<close>: from the trending list when \<^verbatim>\<open>sort\<close> is
  \<^verbatim>\<open>Trends\<close> (\<open>None\<close>: there is no trending list and the function returns the empty
  page), then from the tags.
\<close>

definition resolveTrending ::
  "SubjectFilter \<Rightarrow> SubjectSort \<Rightarrow> world \<Rightarrow> SubjectFilter option \<times> world" where
  "resolveTrending f srt s =
     (if srt = SortTrends
      then
        (let (data, s1) =
               redis_get trendingSubjects getTrendingSubjectKey (filter_type f, PeriodMonth) s
         in case data of
              None \<Rightarrow> (None, s1)
            | Some ids \<Rightarrow> (Some (f\<lparr>filter_ids := Some (map item_id ids)\<rparr>), s1))
      else (Some f, s))"

definition resolveTags ::
  "(string \<Rightarrow> string) \<Rightarrow> Store \<Rightarrow> SubjectFilter \<Rightarrow> world \<Rightarrow> SubjectFilter \<times> world" where
  "resolveTags nfkc db f s =
     (case filter_tags f of
        None \<Rightarrow> (f, s)
      | Some tags \<Rightarrow>
          (let s1 = db_query (SelectTagIndex (filter_type f) (map nfkc tags)) s;
               tagIDs = tagIndexIDs nfkc db (filter_type f) tags;
               s2 = db_query (SelectTagList (filter_type f) tagIDs) s1;
               subjectIDs = tagSubjectIDs nfkc db (filter_type f) tags
           in case filter_ids f of
                Some ids \<Rightarrow> (f\<lparr>filter_ids := Some (filter (\<lambda>i. i \<in> set subjectIDs) ids)\<rparr>, s2)
              | None \<Rightarrow> (f\<lparr>filter_ids := Some subjectIDs\<rparr>, s2)))"

text \<open>
  The list \<^verbatim>\<open>conditions\<close>. Truthiness as in the source: \<^verbatim>\<open>!filter.nsfw\<close> holds for
  \<^verbatim>\<open>undefined\<close> and \<^verbatim>\<open>false\<close>; a number is taken when it is defined and not zero; an
  array is taken when it is defined, empty or not.
\<close>

definition truthy :: "int option \<Rightarrow> bool" where
  "truthy v = (case v of None \<Rightarrow> False | Some n \<Rightarrow> n \<noteq> 0)"

definition conditions ::
  "SubjectFilter \<Rightarrow> SubjectSort \<Rightarrow> (chiiSubjects_row \<times> chiiSubjectFields_row \<Rightarrow> bool) list" where
  "conditions f srt =
     [\<lambda>(sj, sf). subjects_typeID sj = filter_type f, \<lambda>(sj, sf). subjects_ban sj \<noteq> 1]
     @ (if filter_nsfw f = Some True then [] else [\<lambda>(sj, sf). subjects_nsfw sj = False])
     @ (if truthy (filter_cat f) then [\<lambda>(sj, sf). Some (subjects_platform sj) = filter_cat f] else [])
     @ (if filter_series f = Some True then [\<lambda>(sj, sf). subjects_series sj = True] else [])
     @ (if truthy (filter_year f) then [\<lambda>(sj, sf). Some (fields_year sf) = filter_year f] else [])
     @ (if truthy (filter_month f) then [\<lambda>(sj, sf). Some (fields_month sf) = filter_month f] else [])
     @ (case filter_ids f of None \<Rightarrow> [] | Some ids \<Rightarrow> [\<lambda>(sj, sf). subjects_id sj \<in> set ids])
     @ (if srt = SortRank then [\<lambda>(sj, sf). fields_rank sf \<noteq> 0] else [])"

text \<open>The rows of the join that satisfy \<^verbatim>\<open>op.and(...conditions)\<close>.\<close>

definition matchingRows ::
  "Store \<Rightarrow> SubjectFilter \<Rightarrow> SubjectSort \<Rightarrow> (chiiSubjects_row \<times> chiiSubjectFields_row) list" where
  "matchingRows db f srt =
     filter (\<lambda>r. list_all (\<lambda>c. c r) (conditions f srt)) (subjectsJoinFields db)"

text \<open>
  \<^verbatim>\<open>ORDER BY ... DESC\<close> as a stable sort; SQL leaves the order of rows with equal keys
  open, and the model keeps them in table order.
\<close>

definition orderByDesc :: "('a \<Rightarrow> 'k::linorder) \<Rightarrow> 'a list \<Rightarrow> 'a list" where
  "orderByDesc key xs = rev (sort_key key (rev xs))"

text \<open>
  MySQL's \<^verbatim>\<open>find_in_set(x, 'a,b,c')\<close>: the position of \<open>x\<close> in the list, from 1, and 0
  when it is not there.
\<close>

fun find_in_set :: "int \<Rightarrow> int list \<Rightarrow> nat" where
  "find_in_set x [] = 0"
| "find_in_set x (y # ys) =
     (if x = y then 1 else (case find_in_set x ys of 0 \<Rightarrow> 0 | Suc n \<Rightarrow> Suc (Suc n)))"

definition orderRows ::
  "SubjectSort \<Rightarrow> int list \<Rightarrow> (chiiSubjects_row \<times> chiiSubjectFields_row) list
    \<Rightarrow> (chiiSubjects_row \<times> chiiSubjectFields_row) list" where
  "orderRows srt ids rows =
     (case srt of
        SortRank \<Rightarrow> sort_key (\<lambda>(sj, sf). fields_rank sf) rows
      | SortTrends \<Rightarrow> sort_key (\<lambda>(sj, sf). find_in_set (subjects_id sj) ids) rows
      | SortCollects \<Rightarrow> orderByDesc (\<lambda>(sj, sf). subjects_collect sj) rows
      | SortDate \<Rightarrow> orderByDesc (\<lambda>(sj, sf). fields_date sf) rows
      | SortTitle \<Rightarrow> sort_key (\<lambda>(sj, sf). subjects_name sj) rows)"

datatype error = StoreError

text \<open>\<^verbatim>\<open>Math.ceil(count / 24)\<close>.\<close>

definition pageCount :: "nat \<Rightarrow> int" where
  "pageCount count = \<lceil>real count / 24\<rceil>"

text \<open>
  \<^verbatim>\<open>fetchSubjectIDsByFilter(filter, sort, page)\<close>. The function assigns to
  \<^verbatim>\<open>filter.ids\<close>, so the filter object as the caller finds it afterwards is part of the
  result. The paged query is \<^verbatim>\<open>limit(24).offset((page - 1) * 24)\<close>; MySQL rejects a
  negative offset and the query throws.
\<close>

definition fetchSubjectIDsByFilter ::
  "(string \<Rightarrow> string) \<Rightarrow> Store \<Rightarrow> SubjectFilter \<Rightarrow> SubjectSort \<Rightarrow> int \<Rightarrow> world
    \<Rightarrow> (error + IPaged) \<times> SubjectFilter \<times> world" where
  "fetchSubjectIDsByFilter nfkc db f srt page s =
     (let cacheKey = (f, srt, page);
          (cached, s1) = redis_get subjectList getSubjectListCacheKey cacheKey s
      in case cached of
           Some r \<Rightarrow> (Inr r, f, s1)
         | None \<Rightarrow>
             (case resolveTrending f srt s1 of
                (None, s2) \<Rightarrow> (Inr \<lparr>paged_data = [], paged_total = 0\<rparr>, f, s2)
              | (Some f1, s2) \<Rightarrow>
                  (let (f2, s3) = resolveTags nfkc db f1 s2;
                       s4 = db_query CountSubjects s3;
                       rows = matchingRows db f2 srt;
                       count = length rows
                   in if count = 0 then (Inr \<lparr>paged_data = [], paged_total = 0\<rparr>, f2, s4)
                      else
                        (let total = pageCount count in
                         if srt = SortTrends \<and> filter_ids f2 = None
                         then (Inr \<lparr>paged_data = [], paged_total = 0\<rparr>, f2, s4)
                         else
                           (let offset = (page - 1) * 24;
                                s5 = db_query (SelectSubjectPage 24 offset) s4
                            in if offset < 0 then (Inl StoreError, f2, s5)
                               else
                                 (let ids = (case filter_ids f2 of None \<Rightarrow> [] | Some xs \<Rightarrow> xs);
                                      data = take 24 (drop (nat offset) (orderRows srt ids rows));
                                      result = \<lparr>paged_data = map (\<lambda>(sj, sf). subjects_id sj) data,
                                                paged_total = total\<rparr>;
                                      s6 = redis_setex subjectList_update getSubjectListCacheKey
                                             cacheKey (if page = 1 then 86400 else 3600) result s5
                                  in (Inr result, f2, s6)))))))"

section \<open>Trending subjects (\<^verbatim>\<open>lib/trending/subject.ts\<close>)\<close>

definition getSubjectTrendingKey :: "SubjectType \<times> TrendingPeriod \<Rightarrow> cache_key" where
  "getSubjectTrendingKey k = SubjectTrendingKey (fst k) (snd k)"

text \<open>
  The rows of \<^verbatim>\<open>chii_subject_interests\<close> joined with \<^verbatim>\<open>chii_subjects\<close> that the aggregate
  query keeps: the subject has the type asked for, is not banned and not NSFW, and the
  interest is newer than \<^verbatim>\<open>minDateline\<close> by \<^verbatim>\<open>doingDateline\<close> or by \<^verbatim>\<open>updatedAt\<close>.
\<close>

definition trendingRows ::
  "Store \<Rightarrow> SubjectType \<Rightarrow> bool \<Rightarrow> int \<Rightarrow> (chiiSubjectInterests_row \<times> chiiSubjects_row) list" where
  "trendingRows db subjectType doingDateline minDateline =
     filter (\<lambda>(it, sj). subjects_typeID sj = subjectType \<and> subjects_ban sj \<noteq> 1
                \<and> subjects_nsfw sj = False
                \<and> (if doingDateline then interests_doingDateline it > minDateline
                    else interests_updatedAt it > minDateline))
       (concat (map (\<lambda>it. map (\<lambda>sj. (it, sj))
          (filter (\<lambda>sj. subjects_id sj = interests_subjectID it) (chiiSubjects db)))
          (chiiSubjectInterests db)))"

text \<open>\<^verbatim>\<open>count(chii_subjects.subject_id)\<close> of the group of subject \<open>k\<close>.\<close>

definition interestCount ::
  "(chiiSubjectInterests_row \<times> chiiSubjects_row) list \<Rightarrow> int \<Rightarrow> int" where
  "interestCount rows k = int (length (filter (\<lambda>(it, sj). subjects_id sj = k) rows))"

text \<open>
  The aggregate query: \<^verbatim>\<open>groupBy(id).orderBy(desc(count(id))).limit(1000)\<close> over
  \<open>trendingRows\<close>, as pairs \<^verbatim>\<open>(subjectID, total)\<close>.
\<close>

definition trendingQuery :: "Store \<Rightarrow> SubjectType \<Rightarrow> bool \<Rightarrow> int \<Rightarrow> (int \<times> int) list" where
  "trendingQuery db subjectType doingDateline minDateline =
     (let rows = trendingRows db subjectType doingDateline minDateline;
          groups = uniq (map (\<lambda>(it, sj). subjects_id sj) rows);
          counted = map (\<lambda>k. (k, interestCount rows k)) groups
      in take 1000 (orderByDesc snd counted))"

text \<open>
  \<^verbatim>\<open>updateTrendingSubjects(subjectType, period, flush)\<close>. \<^verbatim>\<open>getTrendingPeriodDuration\<close>
  (of \<^verbatim>\<open>lib/trending/type.ts\<close>, not among the sources) and \<^verbatim>\<open>Date.now()\<close> are parameters;
  \<^verbatim>\<open>!duration\<close> holds for \<^verbatim>\<open>undefined\<close> and for \<^verbatim>\<open>0\<close>. \<^verbatim>\<open>redis.set(lockKey, 1, 'EX', 3600)\<close>
  is the write with expiry.
\<close>

definition updateTrendingSubjects ::
  "(TrendingPeriod \<Rightarrow> int option) \<Rightarrow> Store \<Rightarrow> int \<Rightarrow> SubjectType \<Rightarrow> TrendingPeriod \<Rightarrow> bool
    \<Rightarrow> world \<Rightarrow> world" where
  "updateTrendingSubjects getTrendingPeriodDuration db now subjectType period flush s =
     (let target = (subjectType, period);
          trendingKey = getSubjectTrendingKey target;
          s1 = (if flush then redis_del locks_update LockKey trendingKey s else s);
          (lock, s2) = redis_get locks LockKey trendingKey s1
      in case lock of
           Some v \<Rightarrow> emit (LogInfo ''Already calculating trending subjects'') s2
         | None \<Rightarrow>
             (let s3 = redis_setex locks_update LockKey trendingKey 3600 1 s2;
                  s4 = emit (LogInfo ''Calculating trending subjects'') s3
              in case getTrendingPeriodDuration period of
                   None \<Rightarrow> emit (LogError ''Invalid period'') s4
                 | Some duration \<Rightarrow>
                     if duration = 0 then emit (LogError ''Invalid period'') s4
                     else
                       (let minDateline = now - duration;
                            doingDateline =
                              \<not> (subjectType = TypeBook \<or> subjectType = TypeMusic);
                            s5 = db_query (AggregateInterests subjectType minDateline) s4;
                            data = trendingQuery db subjectType doingDateline minDateline;
                            ids = map (\<lambda>(subjectID, total).
                                    \<lparr>item_id = subjectID, item_total = total\<rparr>) data;
                            s6 = redis_set trendingSubjects_update getSubjectTrendingKey
                                   target ids s5
                        in redis_del locks_update LockKey trendingKey s6)))"



section \<open>Concrete stores and caches\<close>

text \<open>
  Instances on which the fetchers and the trending job are run below: an empty cache with
  an empty trace, an empty store, conversions that copy the identifier and the NSFW flag
  of a row, and a few rows.
\<close>

definition emptyWorld :: world where
  "emptyWorld = \<lparr>userSlim = Map.empty, subjectSlim = Map.empty, subjectItem = Map.empty,
     subjectEp = Map.empty, subjectTopic = Map.empty, groupTopic = Map.empty,
     subjectList = Map.empty, trendingSubjects = Map.empty, locks = Map.empty, trace = []\<rparr>"

definition emptyStore :: Store where
  "emptyStore = \<lparr>chiiUsers = [], chiiSubjects = [], chiiSubjectFields = [],
     chiiSubjectTopics = [], chiiGroupTopics = [], chiiEpisodes = [], chiiTagIndex = [],
     chiiTagList = [], chiiSubjectInterests = []\<rparr>"

definition copySlimSubject :: "chiiSubjects_row \<Rightarrow> chiiSubjectFields_row \<Rightarrow> ISlimSubject" where
  "copySlimSubject sj sf = \<lparr>slimSubject_id = subjects_id sj, slimSubject_nsfw = subjects_nsfw sj\<rparr>"

definition copySubject :: "chiiSubjects_row \<Rightarrow> chiiSubjectFields_row \<Rightarrow> ISubject" where
  "copySubject sj sf = \<lparr>subject_id = subjects_id sj, subject_nsfw = subjects_nsfw sj\<rparr>"

definition copySlimUser :: "chiiUsers_row \<Rightarrow> ISlimUser" where
  "copySlimUser d = \<lparr>slimUser_id = users_id d, slimUser_username = users_username d,
     slimUser_nickname = users_username d\<rparr>"

definition copyEpisode :: "chiiEpisodes_row \<Rightarrow> IEpisode" where
  "copyEpisode d = \<lparr>episode_id = episodes_id d\<rparr>"

definition animeRow :: "int \<Rightarrow> int \<Rightarrow> bool \<Rightarrow> chiiSubjects_row" where
  "animeRow i ban nsfw = \<lparr>subjects_id = i, subjects_typeID = TypeAnime, subjects_ban = ban,
     subjects_nsfw = nsfw, subjects_platform = 1, subjects_series = False,
     subjects_collect = 0, subjects_name = ''anime''\<rparr>"

definition fieldsRow :: "int \<Rightarrow> chiiSubjectFields_row" where
  "fieldsRow i = \<lparr>fields_id = i, fields_year = 2024, fields_month = 1, fields_rank = i,
     fields_date = ''2024-01-01''\<rparr>"

definition interestRow :: "int \<Rightarrow> chiiSubjectInterests_row" where
  "interestRow i = \<lparr>interests_subjectID = i, interests_doingDateline = 950,
     interests_updatedAt = 950\<rparr>"

text \<open>Subjects 1 and 3 are present, subject 2 is banned.\<close>

definition batchStore :: Store where
  "batchStore =
     emptyStore\<lparr>chiiSubjects := [animeRow 1 0 False, animeRow 2 1 False, animeRow 3 0 False],
       chiiSubjectFields := [fieldsRow 1, fieldsRow 2, fieldsRow 3]\<rparr>"

text \<open>Five interests in subject 10, nine in subject 20 and one in subject 30.\<close>

definition trendingStore :: Store where
  "trendingStore =
     emptyStore\<lparr>chiiSubjects := [animeRow 10 0 False, animeRow 20 0 False, animeRow 30 0 False],
       chiiSubjectInterests :=
         map interestRow [10, 20, 20, 10, 20, 30, 20, 10, 20, 20, 10, 20, 20, 10, 20]\<rparr>"

text \<open>A duration table that knows the month alone.\<close>

definition monthOnly :: "TrendingPeriod \<Rightarrow> int option" where
  "monthOnly p = (if p = PeriodMonth then Some 100 else None)"

definition animeFilter :: SubjectFilter where
  "animeFilter = \<lparr>filter_type = TypeAnime, filter_nsfw = None, filter_cat = None,
     filter_series = None, filter_year = None, filter_month = None, filter_tags = None,
     filter_ids = None\<rparr>"

text \<open>A cache that holds subject 7 as a slim record alone, and one that holds it as a full
  record alone; the record is NSFW in both.\<close>

definition nsfwSlimWorld :: world where
  "nsfwSlimWorld =
     emptyWorld\<lparr>subjectSlim :=
         [7 \<mapsto> (\<lparr>slimSubject_id = 7, slimSubject_nsfw = True\<rparr>, Some ONE_MONTH)]\<rparr>"

definition nsfwItemWorld :: world where
  "nsfwItemWorld =
     emptyWorld\<lparr>subjectItem :=
         [7 \<mapsto> (\<lparr>subject_id = 7, subject_nsfw = True\<rparr>, Some ONE_MONTH)]\<rparr>"

definition lockedWorld :: world where
  "lockedWorld =
     emptyWorld\<lparr>locks := [SubjectTrendingKey TypeAnime PeriodMonth \<mapsto> (1, Some 3600)]\<rparr>"

definition userCachedWorld :: world where
  "userCachedWorld =
     emptyWorld\<lparr>userSlim :=
       [1 \<mapsto> (\<lparr>slimUser_id = 1, slimUser_username = ''u1'', slimUser_nickname = ''n1''\<rparr>,
                Some ONE_MONTH)]\<rparr>"

definition bannedEpisodeStore :: Store where
  "bannedEpisodeStore =
     emptyStore\<lparr>chiiEpisodes := [\<lparr>episodes_id = 5, episodes_ban = 1\<rparr>,
                                   \<lparr>episodes_id = 6, episodes_ban = 0\<rparr>]\<rparr>"

definition trendingWorld :: world where
  "trendingWorld =
     emptyWorld\<lparr>trendingSubjects :=
       [(TypeAnime, PeriodMonth) \<mapsto>
          ([\<lparr>item_id = 3, item_total = 9\<rparr>, \<lparr>item_id = 1, item_total = 5\<rparr>], None)]\<rparr>"

section \<open>Auxiliary facts\<close>

lemma set_uniq: "set (uniq xs) = set xs"
  by (simp add: uniq_def)

lemma distinct_uniq: "distinct (uniq xs)"
  by (simp add: uniq_def)

lemma uniq_Nil_iff: "uniq xs = [] \<longleftrightarrow> xs = []"
  by (metis set_uniq set_empty)

lemma collectCached_all_missing:
  "collectCached hidden (zip ids (map (\<lambda>k. None) ids)) result missing = (result, missing @ ids)"
  by (induction ids arbitrary: missing) simp_all

lemma collectCached_all_hits:
  "\<forall>c\<in>set cs. c \<noteq> None \<Longrightarrow> snd (collectCached hidden (zip ids cs) result missing) = missing"
proof (induction ids cs arbitrary: result rule: list_induct2')
  case (4 i ids c cs)
  then obtain v where "c = Some v" by auto
  with 4 show ?case by simp
qed simp_all

lemma storeSlimSubjects_defined:
  "(\<exists>y. fst (storeSlimSubjects toSlimSubject allowNsfw data result s) i = Some y) =
     ((\<exists>y. result i = Some y) \<or> (\<exists>(sj, sf)\<in>set data. subjects_id sj = i
                      \<and> visible allowNsfw (slimSubject_nsfw (toSlimSubject sj sf))))"
proof (induction data arbitrary: result s)
  case Nil
  then show ?case by simp
next
  case (Cons d data)
  obtain sj sf where d: "d = (sj, sf)" by (cases d)
  let ?slim = "toSlimSubject sj sf"
  let ?s1 = "redis_setex subjectSlim_update SubjectSlimKey (subjects_id sj) ONE_MONTH ?slim s"
  show ?case
  proof (cases "\<not> allowNsfw \<and> slimSubject_nsfw ?slim")
    case True
    then have "storeSlimSubjects toSlimSubject allowNsfw (d # data) result s =
        storeSlimSubjects toSlimSubject allowNsfw data result ?s1"
      unfolding d by (simp add: Let_def)
    moreover from True have "\<not> visible allowNsfw (slimSubject_nsfw ?slim)"
      by (simp add: visible_def)
    ultimately show ?thesis
      unfolding d by (simp add: Cons.IH)
  next
    case False
    then have "storeSlimSubjects toSlimSubject allowNsfw (d # data) result s =
        storeSlimSubjects toSlimSubject allowNsfw data (result(subjects_id sj \<mapsto> ?slim)) ?s1"
      unfolding d by (auto simp: Let_def)
    moreover from False have "visible allowNsfw (slimSubject_nsfw ?slim)"
      by (auto simp: visible_def)
    ultimately show ?thesis
      unfolding d by (auto simp: Cons.IH)
  qed
qed

lemma dom_storeSlimSubjects:
  "dom (fst (storeSlimSubjects toSlimSubject allowNsfw data result s)) =
     dom result \<union> {i. \<exists>(sj, sf)\<in>set data. subjects_id sj = i
                      \<and> visible allowNsfw (slimSubject_nsfw (toSlimSubject sj sf))}"
  unfolding dom_def using storeSlimSubjects_defined[of toSlimSubject allowNsfw data result s]
  by auto

lemma trace_storeSlimSubjects:
  "trace (snd (storeSlimSubjects toSlimSubject allowNsfw data result s)) =
     trace s @ map (\<lambda>(sj, sf). CacheSet (SubjectSlimKey (subjects_id sj)) (Some ONE_MONTH)) data"
  by (induction data arbitrary: result s)
     (auto simp: Let_def redis_setex_def emit_def)

lemma fetchSlimSubjectsByIDs_uncached:
  assumes "\<forall>i\<in>set ids. subjectSlim s i = None" and "ids \<noteq> []"
  shows "fetchSlimSubjectsByIDs toSlimSubject db ids allowNsfw s =
     storeSlimSubjects toSlimSubject allowNsfw
       (filter (\<lambda>(sj, sf). subjects_id sj \<in> set ids \<and> subjects_ban sj \<noteq> 1)
          (subjectsJoinFields db))
       Map.empty
       (db_query (SelectByIDs Subjects (uniq ids))
          (emit (CacheMGet (map SubjectSlimKey (uniq ids))) s))"
proof -
  have c: "map (\<lambda>k. map_option fst (subjectSlim s k)) (uniq ids) = map (\<lambda>k. None) (uniq ids)"
    using assms(1) by (simp add: set_uniq)
  from assms(2) have ne: "uniq ids \<noteq> []" by (simp add: uniq_Nil_iff)
  show ?thesis
    using assms(2) ne
    by (simp add: fetchSlimSubjectsByIDs_def redis_mget_def c collectCached_all_missing
        Let_def set_uniq)
qed

lemma dom_fetchSlimSubjectsByIDs_uncached:
  assumes "\<forall>i\<in>set ids. subjectSlim s i = None"
  shows "dom (fst (fetchSlimSubjectsByIDs toSlimSubject db ids allowNsfw s)) =
     {i \<in> set ids. \<exists>(sj, sf)\<in>set (subjectsJoinFields db). subjects_id sj = i
         \<and> subjects_ban sj \<noteq> 1
         \<and> visible allowNsfw (slimSubject_nsfw (toSlimSubject sj sf))}"
proof (cases "ids = []")
  case True
  then show ?thesis by (simp add: fetchSlimSubjectsByIDs_def)
next
  case False
  show ?thesis
    unfolding fetchSlimSubjectsByIDs_uncached[OF assms False] dom_storeSlimSubjects
    by auto
qed

lemma storeEpisodes_single:
  "storeEpisodes toEpisode [d] result s =
    (result(episodes_id d \<mapsto> toEpisode d),
     redis_setex subjectEp_update SubjectEpKey (episodes_id d) ONE_MONTH (toEpisode d) s)"
  by (simp add: Let_def)




text \<open>\<^verbatim>\<open>Math.ceil(count / 24)\<close> in integer arithmetic.\<close>

lemma pageCount_div: "pageCount n = (int n + 23) div 24"
  unfolding pageCount_def by linarith

lemma pageCount_zero: "pageCount 0 = 0"
  by (simp add: pageCount_def)

lemma pageCount_pos: "0 < n \<Longrightarrow> 0 < pageCount n"
  by (simp add: pageCount_div)








lemma resolveTags_filter:
  "fst (resolveTags nfkc db f s) =
     f\<lparr>filter_ids :=
         (case filter_tags f of
            None \<Rightarrow> filter_ids f
          | Some tags \<Rightarrow>
              (case filter_ids f of
                 None \<Rightarrow> Some (tagSubjectIDs nfkc db (filter_type f) tags)
               | Some ids \<Rightarrow>
                   Some (filter (\<lambda>i. i \<in> set (tagSubjectIDs nfkc db (filter_type f) tags))
                           ids)))\<rparr>"
  by (simp add: resolveTags_def Let_def split: option.split)

lemma resolveTags_ids_Some:
  "filter_ids f \<noteq> None \<Longrightarrow> filter_ids (fst (resolveTags nfkc db f s)) \<noteq> None"
  by (simp add: resolveTags_filter split: option.split)

lemma resolveTrending_cases:
  "resolveTrending f srt s =
    (if srt = SortTrends then
       (case trendingSubjects s (filter_type f, PeriodMonth) of
          None \<Rightarrow> (None, emit (CacheGet (SubjectTrendingKey (filter_type f) PeriodMonth)) s)
        | Some (ids, t) \<Rightarrow> (Some (f\<lparr>filter_ids := Some (map item_id ids)\<rparr>),
             emit (CacheGet (SubjectTrendingKey (filter_type f) PeriodMonth)) s))
     else (Some f, s))"
  by (simp add: resolveTrending_def redis_get_def getTrendingSubjectKey_def split: option.split)

lemma resolveTags_subjectList:
  "subjectList (snd (resolveTags nfkc db f s)) = subjectList s"
  by (simp add: resolveTags_def db_query_def emit_def Let_def split: option.split)

lemma orderRows_Nil: "orderRows srt ids [] = []"
  by (cases srt) (simp_all add: orderRows_def orderByDesc_def)

lemma fetch_filter_after:
  assumes "subjectList s (f, srt, page) = None"
  shows "fst (snd (fetchSubjectIDsByFilter nfkc db f srt page s)) =
     (case fst (resolveTrending f srt (emit (CacheGet (SubjectListKey f srt page)) s)) of
        None \<Rightarrow> f
      | Some f1 \<Rightarrow>
          fst (resolveTags nfkc db f1
                 (snd (resolveTrending f srt (emit (CacheGet (SubjectListKey f srt page)) s)))))"
  using assms
  by (simp add: fetchSubjectIDsByFilter_def redis_get_def getSubjectListCacheKey_def Let_def
      split_beta split: option.split prod.split)

lemma join_batchStore:
  "subjectsJoinFields batchStore =
     [(animeRow 1 0 False, fieldsRow 1), (animeRow 2 1 False, fieldsRow 2),
      (animeRow 3 0 False, fieldsRow 3)]"
  by (simp add: subjectsJoinFields_def batchStore_def emptyStore_def animeRow_def fieldsRow_def)


section \<open>Visibility of cached subjects\<close>

text \<open>
  C1. A subject whose converted record is cached with \<^verbatim>\<open>nsfw = true\<close> is absent for a
  request that disallows NSFW and is returned to one that allows it, from the same cached
  payload; either call is one cache read and no store query, and leaves the cache as it
  was. This holds of \<^verbatim>\<open>fetchSlimSubjectByID\<close> for any cache that holds the slim record,
  whatever else it holds, and of \<^verbatim>\<open>fetchSubjectByID\<close> for any cache that holds the full
  record, whatever else it holds.
\<close>

theorem cached_nsfw_subject_visibility:
  "(subjectSlim s i = Some (slim, t) \<and> slimSubject_nsfw slim \<longrightarrow>
      fetchSlimSubjectByID toSlimSubject db i False s =
        (None, s\<lparr>trace := trace s @ [CacheGet (SubjectSlimKey i)]\<rparr>)
    \<and> fetchSlimSubjectByID toSlimSubject db i True s =
        (Some slim, s\<lparr>trace := trace s @ [CacheGet (SubjectSlimKey i)]\<rparr>))
 \<and> (subjectItem w j = Some (item, t') \<and> subject_nsfw item \<longrightarrow>
      fetchSubjectByID toSubject db' j False w =
        (None, w\<lparr>trace := trace w @ [CacheGet (SubjectItemKey j)]\<rparr>)
    \<and> fetchSubjectByID toSubject db' j True w =
        (Some item, w\<lparr>trace := trace w @ [CacheGet (SubjectItemKey j)]\<rparr>))"
  by (simp add: fetchSlimSubjectByID_def fetchSubjectByID_def redis_get_def emit_def)

text \<open>
  Subject 7 over an empty store: cached as an NSFW slim record and nothing else for the
  slim fetcher, cached as an NSFW full record and nothing else for the full fetcher.
\<close>

theorem cached_nsfw_subject_visibility_witness:
  "subjectSlim nsfwSlimWorld 7 =
     Some (\<lparr>slimSubject_id = 7, slimSubject_nsfw = True\<rparr>, Some ONE_MONTH)
 \<and> subjectItem nsfwSlimWorld 7 = None
 \<and> fetchSlimSubjectByID copySlimSubject emptyStore 7 False nsfwSlimWorld =
     (None, nsfwSlimWorld\<lparr>trace := [CacheGet (SubjectSlimKey 7)]\<rparr>)
 \<and> fetchSlimSubjectByID copySlimSubject emptyStore 7 True nsfwSlimWorld =
     (Some \<lparr>slimSubject_id = 7, slimSubject_nsfw = True\<rparr>,
      nsfwSlimWorld\<lparr>trace := [CacheGet (SubjectSlimKey 7)]\<rparr>)
 \<and> subjectItem nsfwItemWorld 7 =
     Some (\<lparr>subject_id = 7, subject_nsfw = True\<rparr>, Some ONE_MONTH)
 \<and> subjectSlim nsfwItemWorld 7 = None
 \<and> fetchSubjectByID copySubject emptyStore 7 False nsfwItemWorld =
     (None, nsfwItemWorld\<lparr>trace := [CacheGet (SubjectItemKey 7)]\<rparr>)
 \<and> fetchSubjectByID copySubject emptyStore 7 True nsfwItemWorld =
     (Some \<lparr>subject_id = 7, subject_nsfw = True\<rparr>,
      nsfwItemWorld\<lparr>trace := [CacheGet (SubjectItemKey 7)]\<rparr>)"
proof -
  have h1: "subjectSlim nsfwSlimWorld 7 =
      Some (\<lparr>slimSubject_id = 7, slimSubject_nsfw = True\<rparr>, Some ONE_MONTH)"
    and n1: "subjectItem nsfwSlimWorld 7 = None"
    and tr1: "trace nsfwSlimWorld = []"
    by (simp_all add: nsfwSlimWorld_def emptyWorld_def)
  have h2: "subjectItem nsfwItemWorld 7 =
      Some (\<lparr>subject_id = 7, subject_nsfw = True\<rparr>, Some ONE_MONTH)"
    and n2: "subjectSlim nsfwItemWorld 7 = None"
    and tr2: "trace nsfwItemWorld = []"
    by (simp_all add: nsfwItemWorld_def emptyWorld_def)
  from cached_nsfw_subject_visibility[where s = nsfwSlimWorld and i = 7
      and slim = "\<lparr>slimSubject_id = 7, slimSubject_nsfw = True\<rparr>" and t = "Some ONE_MONTH"
      and w = nsfwItemWorld and j = 7
      and item = "\<lparr>subject_id = 7, subject_nsfw = True\<rparr>" and t' = "Some ONE_MONTH"
      and toSlimSubject = copySlimSubject and db = emptyStore
      and toSubject = copySubject and db' = emptyStore]
  show ?thesis
    by (simp add: h1 n1 tr1 h2 n2 tr2)
qed

section \<open>The total of a page\<close>

text \<open>
  C2, as the claim states it, fails: with two matching subjects the page returned for
  page 1 holds both ids and its \<^verbatim>\<open>total\<close> is 1, the number of pages, not 2, the number
  of matching rows.
\<close>

theorem paged_total_not_matching_count:
  "fst (fetchSubjectIDsByFilter (\<lambda>t. t) batchStore animeFilter SortRank 1 emptyWorld) =
     Inr \<lparr>paged_data = [1, 3], paged_total = 1\<rparr>
 \<and> length (matchingRows batchStore animeFilter SortRank) = 2"
  by (simp add: fetchSubjectIDsByFilter_def redis_get_def emptyWorld_def resolveTrending_def
      resolveTags_def animeFilter_def matchingRows_def conditions_def join_batchStore animeRow_def
      fieldsRow_def truthy_def pageCount_div orderRows_def Let_def db_query_def emit_def
      redis_setex_def getSubjectListCacheKey_def)

text \<open>
  C2, amended. On a cache miss, for every filter and sort, \<^verbatim>\<open>fetchSubjectIDsByFilter\<close>
  returns a page for every page number from 1 on, and every page it returns is this one:
  its \<^verbatim>\<open>total\<close> is \<^verbatim>\<open>Math.ceil(count / 24)\<close>, the number of pages (not the number) of the
  rows that match the predicates of the filter as the function leaves it, and its
  \<^verbatim>\<open>data\<close> are the ids of those rows in the order of the sort, from row
  \<open>(page - 1) * 24\<close> on and at most 24 of them; when the sort is by trends and no trending
  list is cached, the page is empty with total 0. A page with a total other than 0 is
  written to the cache under the key of the request, for a day when it is page 1 and for
  an hour otherwise; with total 0 the cache is left as it was.
\<close>

theorem paged_total_is_page_count:
  assumes "subjectList s (f, srt, page) = None"
  shows "case fetchSubjectIDsByFilter nfkc db f srt page s of
     (res, f', s') \<Rightarrow>
       (1 \<le> page \<longrightarrow> (\<exists>r. res = Inr r))
     \<and> (\<forall>r. res = Inr r \<longrightarrow>
          r = (if srt = SortTrends \<and> trendingSubjects s (filter_type f, PeriodMonth) = None
               then \<lparr>paged_data = [], paged_total = 0\<rparr>
               else \<lparr>paged_data = map (\<lambda>(sj, sf). subjects_id sj)
                        (take 24 (drop (nat ((page - 1) * 24))
                           (orderRows srt (case filter_ids f' of None \<Rightarrow> [] | Some xs \<Rightarrow> xs)
                              (matchingRows db f' srt)))),
                      paged_total = pageCount (length (matchingRows db f' srt))\<rparr>)
        \<and> length (paged_data r) \<le> 24
        \<and> subjectList s' =
            (if paged_total r = 0 then subjectList s
             else (subjectList s)((f, srt, page) \<mapsto>
                    (r, Some (if page = 1 then 86400 else 3600)))))"
proof -
  let ?s1 = "emit (CacheGet (SubjectListKey f srt page)) s"
  have start: "fetchSubjectIDsByFilter nfkc db f srt page s =
     (case resolveTrending f srt ?s1 of
        (None, s2) \<Rightarrow> (Inr \<lparr>paged_data = [], paged_total = 0\<rparr>, f, s2)
      | (Some f1, s2) \<Rightarrow>
          (let (f2, s3) = resolveTags nfkc db f1 s2;
               s4 = db_query CountSubjects s3;
               rows = matchingRows db f2 srt;
               count = length rows
           in if count = 0 then (Inr \<lparr>paged_data = [], paged_total = 0\<rparr>, f2, s4)
              else
                (let total = pageCount count in
                 if srt = SortTrends \<and> filter_ids f2 = None
                 then (Inr \<lparr>paged_data = [], paged_total = 0\<rparr>, f2, s4)
                 else
                   (let offset = (page - 1) * 24;
                        s5 = db_query (SelectSubjectPage 24 offset) s4
                    in if offset < 0 then (Inl StoreError, f2, s5)
                       else
                         (let ids = (case filter_ids f2 of None \<Rightarrow> [] | Some xs \<Rightarrow> xs);
                              data = take 24 (drop (nat offset) (orderRows srt ids rows));
                              result = \<lparr>paged_data = map (\<lambda>(sj, sf). subjects_id sj) data,
                                        paged_total = total\<rparr>;
                              s6 = redis_setex subjectList_update getSubjectListCacheKey
                                     (f, srt, page) (if page = 1 then 86400 else 3600) result s5
                          in (Inr result, f2, s6))))))"
    using assms
    by (simp add: fetchSubjectIDsByFilter_def redis_get_def getSubjectListCacheKey_def Let_def)
  show ?thesis
  proof (cases "srt = SortTrends \<and> trendingSubjects s (filter_type f, PeriodMonth) = None")
    case True
    then show ?thesis
      unfolding start by (simp add: resolveTrending_cases emit_def)
  next
    case False
    have "\<exists>f1 s2. resolveTrending f srt ?s1 = (Some f1, s2)
              \<and> (srt = SortTrends \<longrightarrow> filter_ids f1 \<noteq> None)
              \<and> subjectList s2 = subjectList s"
    proof (cases "srt = SortTrends")
      case True
      with False obtain ids t
        where "trendingSubjects s (filter_type f, PeriodMonth) = Some (ids, t)"
        by auto
      with True show ?thesis
        by (simp add: resolveTrending_cases emit_def)
    next
      case False
      then show ?thesis
        by (simp add: resolveTrending_cases emit_def)
    qed
    then obtain f1 s2 where rt: "resolveTrending f srt ?s1 = (Some f1, s2)"
      and ids1: "srt = SortTrends \<longrightarrow> filter_ids f1 \<noteq> None"
      and c2: "subjectList s2 = subjectList s"
      by blast
    obtain f2 s3 where rg: "resolveTags nfkc db f1 s2 = (f2, s3)"
      by (cases "resolveTags nfkc db f1 s2")
    have ids2: "srt = SortTrends \<longrightarrow> filter_ids f2 \<noteq> None"
      using ids1 resolveTags_ids_Some[of f1 nfkc db s2] rg by auto
    have c3: "subjectList s3 = subjectList s"
      using resolveTags_subjectList[of nfkc db f1 s2] rg c2 by simp
    let ?rows = "matchingRows db f2 srt"
    show ?thesis
    proof (cases "length ?rows = 0")
      case True
      with False show ?thesis
        unfolding start rt
        by (simp add: rg Let_def pageCount_zero db_query_def emit_def c3 orderRows_Nil)
    next
      case nonempty: False
      then have pos: "pageCount (length ?rows) \<noteq> 0"
        using pageCount_pos[of "length ?rows"] by simp
      show ?thesis
      proof (cases "(page - 1) * 24 < 0")
        case True
        then have "\<not> 1 \<le> page" by simp
        with True False nonempty ids2 show ?thesis
          unfolding start rt
          by (auto simp: rg Let_def)
      next
        case inrange: False
        with False nonempty ids2 pos show ?thesis
          unfolding start rt
          by (auto simp: rg Let_def db_query_def emit_def redis_setex_def
              getSubjectListCacheKey_def c3)
      qed
    qed
  qed
qed

text \<open>Two of the three subjects of the store match; they fill one page.\<close>

theorem paged_total_is_page_count_witness:
  "subjectList emptyWorld (animeFilter, SortRank, 1) = None
 \<and> fst (fetchSubjectIDsByFilter (\<lambda>t. t) batchStore animeFilter SortRank 1 emptyWorld) =
     Inr \<lparr>paged_data = [1, 3], paged_total = 1\<rparr>
 \<and> pageCount (length (matchingRows batchStore animeFilter SortRank)) = 1
 \<and> subjectList
     (snd (snd (fetchSubjectIDsByFilter (\<lambda>t. t) batchStore animeFilter SortRank 1 emptyWorld)))
     (animeFilter, SortRank, 1) =
     Some (\<lparr>paged_data = [1, 3], paged_total = 1\<rparr>, Some 86400)"
proof -
  have h: "subjectList emptyWorld (animeFilter, SortRank, 1) = None"
    by (simp add: emptyWorld_def)
  have run: "fst (fetchSubjectIDsByFilter (\<lambda>t. t) batchStore animeFilter SortRank 1 emptyWorld) =
      Inr \<lparr>paged_data = [1, 3], paged_total = 1\<rparr>
    \<and> fst (snd (fetchSubjectIDsByFilter (\<lambda>t. t) batchStore animeFilter SortRank 1 emptyWorld)) =
      animeFilter"
    by (simp add: fetchSubjectIDsByFilter_def redis_get_def emptyWorld_def resolveTrending_def
      resolveTags_def animeFilter_def matchingRows_def conditions_def join_batchStore animeRow_def
      fieldsRow_def truthy_def pageCount_div orderRows_def Let_def db_query_def emit_def
      redis_setex_def getSubjectListCacheKey_def)
  obtain r f' s' where res:
    "fetchSubjectIDsByFilter (\<lambda>t. t) batchStore animeFilter SortRank 1 emptyWorld = (r, f', s')"
    by (cases "fetchSubjectIDsByFilter (\<lambda>t. t) batchStore animeFilter SortRank 1 emptyWorld")
  from run have r: "r = Inr \<lparr>paged_data = [1, 3], paged_total = 1\<rparr>" and f': "f' = animeFilter"
    by (simp_all add: res)
  from paged_total_is_page_count[OF h, where nfkc = "\<lambda>t. t" and db = batchStore]
  have "\<lparr>paged_data = [1, 3], paged_total = 1\<rparr> =
          \<lparr>paged_data = map (\<lambda>(sj, sf). subjects_id sj)
              (take 24 (drop (nat ((1 - 1) * 24))
                 (orderRows SortRank (case filter_ids animeFilter of None \<Rightarrow> [] | Some xs \<Rightarrow> xs)
                    (matchingRows batchStore animeFilter SortRank)))),
            paged_total = pageCount (length (matchingRows batchStore animeFilter SortRank))\<rparr>
      \<and> subjectList s' =
          (subjectList emptyWorld)((animeFilter, SortRank, 1) \<mapsto>
             (\<lparr>paged_data = [1, 3], paged_total = 1\<rparr>, Some 86400))"
    by (simp add: res r f')
  then show ?thesis
    using h by (simp add: res r)
qed

section \<open>The trending job\<close>

text \<open>
  C3. While a lock entry exists, \<^verbatim>\<open>updateTrendingSubjects\<close> without \<^verbatim>\<open>flush\<close> reads the
  lock, logs and returns: no store query, no write, the cache as it was. With \<^verbatim>\<open>flush\<close>
  the lock is deleted first, found absent, set again for an hour, and the computation
  goes on: the aggregate query, the write of the trending key and the release of the lock
  follow whenever the duration of the period resolves.
\<close>

theorem trending_lock_and_flush:
  assumes "locks s (SubjectTrendingKey ty p) = Some l"
  shows "updateTrendingSubjects g db now ty p False s =
           s\<lparr>trace := trace s @ [CacheGet (LockKey (SubjectTrendingKey ty p)),
                                  LogInfo ''Already calculating trending subjects'']\<rparr>
    \<and> trace (updateTrendingSubjects g db now ty p True s) =
        trace s @ [CacheDel (LockKey (SubjectTrendingKey ty p)),
                   CacheGet (LockKey (SubjectTrendingKey ty p)),
                   CacheSet (LockKey (SubjectTrendingKey ty p)) (Some 3600),
                   LogInfo ''Calculating trending subjects'']
          @ (case g p of
               None \<Rightarrow> [LogError ''Invalid period'']
             | Some d \<Rightarrow>
                 if d = 0 then [LogError ''Invalid period'']
                 else [StoreQuery (AggregateInterests ty (now - d)),
                       CacheSet (SubjectTrendingKey ty p) None,
                       CacheDel (LockKey (SubjectTrendingKey ty p))])"
  using assms
  by (simp add: updateTrendingSubjects_def getSubjectTrendingKey_def redis_get_def redis_del_def
      redis_setex_def redis_set_def db_query_def emit_def Let_def split: option.split)

text \<open>The month's list of anime, locked.\<close>

theorem trending_lock_and_flush_witness:
  "locks lockedWorld (SubjectTrendingKey TypeAnime PeriodMonth) = Some (1, Some 3600)
 \<and> trace (updateTrendingSubjects monthOnly trendingStore 1000 TypeAnime PeriodMonth False
      lockedWorld) =
     [CacheGet (LockKey (SubjectTrendingKey TypeAnime PeriodMonth)),
      LogInfo ''Already calculating trending subjects'']
 \<and> trendingSubjects (updateTrendingSubjects monthOnly trendingStore 1000 TypeAnime PeriodMonth
      False lockedWorld) (TypeAnime, PeriodMonth) = None
 \<and> trace (updateTrendingSubjects monthOnly trendingStore 1000 TypeAnime PeriodMonth True
      lockedWorld) =
     [CacheDel (LockKey (SubjectTrendingKey TypeAnime PeriodMonth)),
      CacheGet (LockKey (SubjectTrendingKey TypeAnime PeriodMonth)),
      CacheSet (LockKey (SubjectTrendingKey TypeAnime PeriodMonth)) (Some 3600),
      LogInfo ''Calculating trending subjects'',
      StoreQuery (AggregateInterests TypeAnime 900),
      CacheSet (SubjectTrendingKey TypeAnime PeriodMonth) None,
      CacheDel (LockKey (SubjectTrendingKey TypeAnime PeriodMonth))]"
proof -
  have h: "locks lockedWorld (SubjectTrendingKey TypeAnime PeriodMonth) = Some (1, Some 3600)"
    by (simp add: lockedWorld_def emptyWorld_def)
  have tr: "trace lockedWorld = []" "trendingSubjects lockedWorld = Map.empty"
    by (simp_all add: lockedWorld_def emptyWorld_def)
  from trending_lock_and_flush[OF h, where g = monthOnly and db = trendingStore and now = 1000]
  show ?thesis
    using h by (simp add: tr monthOnly_def)
qed

text \<open>
  C4. When the duration of the period does not resolve (\<^verbatim>\<open>undefined\<close> or \<^verbatim>\<open>0\<close>) and the
  job gets past the lock test, it sets the lock, logs the error and returns: the trace
  has no store query and no write of the trending key, and no delete follows the write
  of the lock, which stays in the cache with its expiry of 3600 seconds.
\<close>

theorem trending_invalid_period_keeps_lock:
  assumes "g p = None \<or> g p = Some 0"
    and "flush \<or> locks s (SubjectTrendingKey ty p) = None"
  shows "updateTrendingSubjects g db now ty p flush s =
     s\<lparr>locks := (locks s)(SubjectTrendingKey ty p \<mapsto> (1, Some 3600)),
       trace := trace s
         @ (if flush then [CacheDel (LockKey (SubjectTrendingKey ty p))] else [])
         @ [CacheGet (LockKey (SubjectTrendingKey ty p)),
            CacheSet (LockKey (SubjectTrendingKey ty p)) (Some 3600),
            LogInfo ''Calculating trending subjects'',
            LogError ''Invalid period'']\<rparr>"
  using assms
  by (auto simp add: updateTrendingSubjects_def getSubjectTrendingKey_def redis_get_def
      redis_del_def redis_setex_def redis_set_def db_query_def emit_def Let_def)

text \<open>The week, which the duration table does not know, on an empty cache.\<close>

theorem trending_invalid_period_keeps_lock_witness:
  "monthOnly PeriodWeek = None
 \<and> locks emptyWorld (SubjectTrendingKey TypeAnime PeriodWeek) = None
 \<and> locks (updateTrendingSubjects monthOnly trendingStore 1000 TypeAnime PeriodWeek False
      emptyWorld) (SubjectTrendingKey TypeAnime PeriodWeek) = Some (1, Some 3600)
 \<and> trendingSubjects (updateTrendingSubjects monthOnly trendingStore 1000 TypeAnime PeriodWeek
      False emptyWorld) (TypeAnime, PeriodWeek) = None
 \<and> trace (updateTrendingSubjects monthOnly trendingStore 1000 TypeAnime PeriodWeek False
      emptyWorld) =
     [CacheGet (LockKey (SubjectTrendingKey TypeAnime PeriodWeek)),
      CacheSet (LockKey (SubjectTrendingKey TypeAnime PeriodWeek)) (Some 3600),
      LogInfo ''Calculating trending subjects'',
      LogError ''Invalid period'']"
proof -
  have h1: "monthOnly PeriodWeek = None \<or> monthOnly PeriodWeek = Some 0"
    by (simp add: monthOnly_def)
  have h2: "False \<or> locks emptyWorld (SubjectTrendingKey TypeAnime PeriodWeek) = None"
    by (simp add: emptyWorld_def)
  from trending_invalid_period_keeps_lock[where g = monthOnly and p = PeriodWeek
      and flush = False and s = emptyWorld and ty = TypeAnime and db = trendingStore
      and now = 1000, OF h1 h2]
  show ?thesis
    by (simp add: emptyWorld_def monthOnly_def)
qed



section \<open>Batch fetchers\<close>

text \<open>
  C6. For an input whose ids are 1, 2 and 3 in any order and with any repeats, none of
  them cached, over a store in which every row of subject 2 is banned and subjects 1 and
  3 each have a row that is not banned and that the request may see,
  \<^verbatim>\<open>fetchSlimSubjectsByIDs\<close> returns a map with exactly the keys 1 and 3. The cache is
  asked once, for the ids without repeats, and the store is asked for the same ids.
\<close>

theorem batch_slim_subjects_dedup_and_ban:
  assumes "set ids = {1, 2, 3}"
    and "\<forall>i\<in>set ids. subjectSlim s i = None"
    and "\<forall>(sj, sf)\<in>set (subjectsJoinFields db). subjects_id sj = 2 \<longrightarrow> subjects_ban sj = 1"
    and "\<exists>(sj, sf)\<in>set (subjectsJoinFields db). subjects_id sj = 1 \<and> subjects_ban sj \<noteq> 1
           \<and> visible allowNsfw (slimSubject_nsfw (toSlimSubject sj sf))"
    and "\<exists>(sj, sf)\<in>set (subjectsJoinFields db). subjects_id sj = 3 \<and> subjects_ban sj \<noteq> 1
           \<and> visible allowNsfw (slimSubject_nsfw (toSlimSubject sj sf))"
  shows "dom (fst (fetchSlimSubjectsByIDs toSlimSubject db ids allowNsfw s)) = {1, 3}
    \<and> distinct (uniq ids) \<and> set (uniq ids) = {1, 2, 3}
    \<and> take 2 (drop (length (trace s))
        (trace (snd (fetchSlimSubjectsByIDs toSlimSubject db ids allowNsfw s)))) =
        [CacheMGet (map SubjectSlimKey (uniq ids)), StoreQuery (SelectByIDs Subjects (uniq ids))]"
proof -
  from assms(1) have ne: "ids \<noteq> []" by auto
  have "dom (fst (fetchSlimSubjectsByIDs toSlimSubject db ids allowNsfw s)) = {1, 3}"
    unfolding dom_fetchSlimSubjectsByIDs_uncached[OF assms(2)] assms(1)
    using assms(3,4,5) by auto
  moreover have "take 2 (drop (length (trace s))
        (trace (snd (fetchSlimSubjectsByIDs toSlimSubject db ids allowNsfw s)))) =
        [CacheMGet (map SubjectSlimKey (uniq ids)), StoreQuery (SelectByIDs Subjects (uniq ids))]"
    unfolding fetchSlimSubjectsByIDs_uncached[OF assms(2) ne] trace_storeSlimSubjects
    by (simp add: db_query_def emit_def)
  ultimately show ?thesis
    using assms(1) by (simp add: distinct_uniq set_uniq)
qed

text \<open>The input \<open>[1, 2, 2, 3]\<close> over the store in which subject 2 is banned.\<close>

theorem batch_slim_subjects_dedup_and_ban_witness:
  "set [1, 2, 2, 3 :: int] = {1, 2, 3}
 \<and> uniq [1, 2, 2, 3 :: int] = [1, 2, 3]
 \<and> dom (fst (fetchSlimSubjectsByIDs copySlimSubject batchStore [1, 2, 2, 3] False emptyWorld)) =
     {1, 3}
 \<and> take 2 (trace (snd (fetchSlimSubjectsByIDs copySlimSubject batchStore [1, 2, 2, 3] False
      emptyWorld))) =
     [CacheMGet [SubjectSlimKey 1, SubjectSlimKey 2, SubjectSlimKey 3],
      StoreQuery (SelectByIDs Subjects [1, 2, 3])]"
proof -
  have h1: "set [1, 2, 2, 3 :: int] = {1, 2, 3}"
    by auto
  have h2: "\<forall>i\<in>set [1, 2, 2, 3 :: int]. subjectSlim emptyWorld i = None"
    by (simp add: emptyWorld_def)
  have h3: "\<forall>(sj, sf)\<in>set (subjectsJoinFields batchStore).
      subjects_id sj = 2 \<longrightarrow> subjects_ban sj = 1"
    by (simp add: join_batchStore animeRow_def)
  have h4: "\<exists>(sj, sf)\<in>set (subjectsJoinFields batchStore). subjects_id sj = 1
      \<and> subjects_ban sj \<noteq> 1 \<and> visible False (slimSubject_nsfw (copySlimSubject sj sf))"
    by (simp add: join_batchStore animeRow_def visible_def copySlimSubject_def)
  have h5: "\<exists>(sj, sf)\<in>set (subjectsJoinFields batchStore). subjects_id sj = 3
      \<and> subjects_ban sj \<noteq> 1 \<and> visible False (slimSubject_nsfw (copySlimSubject sj sf))"
    by (simp add: join_batchStore animeRow_def visible_def copySlimSubject_def)
  have u: "uniq [1, 2, 2, 3 :: int] = [1, 2, 3]"
    by (simp add: uniq_def)
  have tr: "trace emptyWorld = []"
    by (simp add: emptyWorld_def)
  from batch_slim_subjects_dedup_and_ban[where toSlimSubject = copySlimSubject, OF h1 h2 h3 h4 h5]
  show ?thesis
    using h1 by (simp add: u tr)
qed

text \<open>
  C7 does not hold of the code. With an empty list of ids, \<^verbatim>\<open>fetchSlimUsersByIDs\<close> and
  \<^verbatim>\<open>fetchSlimSubjectsByIDs\<close> return the empty map and leave cache, store and trace alone,
  but \<^verbatim>\<open>fetchSubjectTopicsByIDs\<close>, \<^verbatim>\<open>fetchEpisodesByIDs\<close> and \<^verbatim>\<open>fetchGroupTopicsByIDs\<close>,
  which have no test of the length, call \<^verbatim>\<open>redis.mget\<close> with no key before they return
  the empty map.
\<close>

theorem batch_empty_ids_calls:
  "fetchSlimUsersByIDs toSlimUser db [] s = (Map.empty, s)
 \<and> fetchSlimSubjectsByIDs toSlimSubject db [] allowNsfw s = (Map.empty, s)
 \<and> fetchSubjectTopicsByIDs toSubjectTopic db [] s = (Map.empty, emit (CacheMGet []) s)
 \<and> fetchEpisodesByIDs toEpisode db [] s = (Map.empty, emit (CacheMGet []) s)
 \<and> fetchGroupTopicsByIDs toGroupTopic db [] s = (Map.empty, emit (CacheMGet []) s)
 \<and> is_cache_call (last (trace (emit (CacheMGet []) s)))"
  by (simp add: fetchSlimUsersByIDs_def fetchSlimSubjectsByIDs_def fetchSubjectTopicsByIDs_def
      fetchEpisodesByIDs_def fetchGroupTopicsByIDs_def redis_mget_def emit_def)

text \<open>
  C8 does not hold of the code. When every id asked of \<^verbatim>\<open>fetchSlimUsersByIDs\<close> is
  cached, the function still queries the store, with an empty list of missing ids: it
  has no test of \<^verbatim>\<open>missing.length\<close>, which the other batch fetchers have.
\<close>

theorem slim_users_all_hits_still_query:
  assumes "ids \<noteq> []" and "\<forall>i\<in>set ids. userSlim s i \<noteq> None"
  shows "trace (snd (fetchSlimUsersByIDs toSlimUser db ids s)) =
     trace s @ [CacheMGet (map UserSlimKey (uniq ids)), StoreQuery (SelectByIDs Users [])]"
proof -
  let ?cached = "map (\<lambda>k. map_option fst (userSlim s k)) (uniq ids)"
  have "\<forall>c\<in>set ?cached. c \<noteq> None"
    using assms(2) by (auto simp: set_uniq)
  then have m: "snd (collectCached (\<lambda>v. False) (zip (uniq ids) ?cached) Map.empty []) = []"
    by (rule collectCached_all_hits)
  show ?thesis
    using assms(1) m
    by (simp add: fetchSlimUsersByIDs_def redis_mget_def Let_def split_beta db_query_def emit_def)
qed

text \<open>User 1, cached, asked for alone.\<close>

theorem slim_users_all_hits_still_query_witness:
  "userSlim userCachedWorld 1 \<noteq> None
 \<and> trace (snd (fetchSlimUsersByIDs copySlimUser emptyStore [1] userCachedWorld)) =
     [CacheMGet [UserSlimKey 1], StoreQuery (SelectByIDs Users [])]
 \<and> is_store_query (last (trace (snd (fetchSlimUsersByIDs copySlimUser emptyStore [1]
      userCachedWorld))))"
proof -
  have h1: "[1 :: int] \<noteq> []"
    by simp
  have h2: "\<forall>i\<in>set [1 :: int]. userSlim userCachedWorld i \<noteq> None"
    by (simp add: userCachedWorld_def emptyWorld_def)
  have tr: "trace userCachedWorld = []"
    by (simp add: userCachedWorld_def emptyWorld_def)
  from slim_users_all_hits_still_query[OF h1 h2, where toSlimUser = copySlimUser
      and db = emptyStore]
  show ?thesis
    using h2 by (simp add: tr uniq_def)
qed

text \<open>
  C9. For an episode that the store holds as its one row of that id, banned, and that
  the cache does not hold: \<^verbatim>\<open>fetchEpisodeByID\<close> returns absent and leaves the cache
  without it, while \<^verbatim>\<open>fetchEpisodesByIDs\<close> of that id alone returns a map holding the
  converted episode under the id and writes it to the cache for a month.
\<close>

theorem episode_ban_single_vs_batch:
  assumes "filter (\<lambda>d. episodes_id d = e) (chiiEpisodes db) = [r]"
    and "episodes_ban r = 1"
    and "subjectEp s e = None"
  shows "fst (fetchEpisodeByID toEpisode db e s) = None
    \<and> subjectEp (snd (fetchEpisodeByID toEpisode db e s)) e = None
    \<and> fst (fetchEpisodesByIDs toEpisode db [e] s) = [e \<mapsto> toEpisode r]
    \<and> subjectEp (snd (fetchEpisodesByIDs toEpisode db [e] s)) e =
        Some (toEpisode r, Some ONE_MONTH)
    \<and> trace (snd (fetchEpisodesByIDs toEpisode db [e] s)) =
        trace s @ [CacheMGet [SubjectEpKey e], StoreQuery (SelectByIDs Episodes [e]),
                   CacheSet (SubjectEpKey e) (Some ONE_MONTH)]"
proof -
  have "r \<in> set (filter (\<lambda>d. episodes_id d = e) (chiiEpisodes db))"
    using assms(1) by simp
  then have id_r: "episodes_id r = e"
    by simp
  have "filter (\<lambda>d. episodes_id d = e \<and> episodes_ban d \<noteq> 1) (chiiEpisodes db) =
        filter (\<lambda>d. episodes_ban d \<noteq> 1) (filter (\<lambda>d. episodes_id d = e) (chiiEpisodes db))"
    by (simp add: conj_commute)
  then have none: "filter (\<lambda>d. episodes_id d = e \<and> episodes_ban d \<noteq> 1) (chiiEpisodes db) = []"
    using assms(1,2) by simp
  have one: "fetchEpisodeByID toEpisode db e s =
      (None, db_query (SelectByID Episodes e) (emit (CacheGet (SubjectEpKey e)) s))"
    using assms(3) by (simp add: fetchEpisodeByID_def redis_get_def none)
  have many: "fetchEpisodesByIDs toEpisode db [e] s =
     storeEpisodes toEpisode [r] Map.empty
       (db_query (SelectByIDs Episodes [e]) (emit (CacheMGet [SubjectEpKey e]) s))"
    using assms(1,3) by (simp add: fetchEpisodesByIDs_def redis_mget_def)
  show ?thesis
    unfolding one many storeEpisodes_single
    using assms(3) by (simp add: id_r db_query_def emit_def redis_setex_def)
qed

text \<open>Episode 5, banned, beside episode 6, over an empty cache.\<close>

theorem episode_ban_single_vs_batch_witness:
  "filter (\<lambda>d. episodes_id d = 5) (chiiEpisodes bannedEpisodeStore) =
     [\<lparr>episodes_id = 5, episodes_ban = 1\<rparr>]
 \<and> subjectEp emptyWorld 5 = None
 \<and> fst (fetchEpisodeByID copyEpisode bannedEpisodeStore 5 emptyWorld) = None
 \<and> fst (fetchEpisodesByIDs copyEpisode bannedEpisodeStore [5] emptyWorld) 5 =
     Some \<lparr>episode_id = 5\<rparr>
 \<and> subjectEp (snd (fetchEpisodesByIDs copyEpisode bannedEpisodeStore [5] emptyWorld)) 5 =
     Some (\<lparr>episode_id = 5\<rparr>, Some ONE_MONTH)"
proof -
  have h1: "filter (\<lambda>d. episodes_id d = 5) (chiiEpisodes bannedEpisodeStore) =
     [\<lparr>episodes_id = 5, episodes_ban = 1\<rparr>]"
    by (simp add: bannedEpisodeStore_def emptyStore_def)
  have h2: "episodes_ban \<lparr>episodes_id = 5, episodes_ban = 1\<rparr> = 1"
    by simp
  have h3: "subjectEp emptyWorld 5 = None"
    by (simp add: emptyWorld_def)
  from episode_ban_single_vs_batch[OF h1 h2 h3, where toEpisode = copyEpisode]
  show ?thesis
    using h1 h3 by (simp add: copyEpisode_def)
qed

section \<open>The filter argument\<close>

text \<open>
  C10. On a cache miss (and, when the sort is by trends, with a trending list cached)
  the filter object is left with \<^verbatim>\<open>ids\<close> assigned: the ids of the trending list when the
  sort is by trends, and, when the filter has tags, the subject ids of the tags, or those
  of the ids already there that are among the subject ids of the tags. Nothing else of
  the filter changes, and the caller sees the assignment after the call.
\<close>

theorem filter_ids_mutated:
  assumes "subjectList s (f, srt, page) = None"
    and "srt = SortTrends \<longrightarrow> trendingSubjects s (filter_type f, PeriodMonth) = Some (items, t)"
  shows "fst (snd (fetchSubjectIDsByFilter nfkc db f srt page s)) =
     f\<lparr>filter_ids :=
         (case filter_tags f of
            None \<Rightarrow> (if srt = SortTrends then Some (map item_id items) else filter_ids f)
          | Some tags \<Rightarrow>
              Some (case (if srt = SortTrends then Some (map item_id items) else filter_ids f) of
                      None \<Rightarrow> tagSubjectIDs nfkc db (filter_type f) tags
                    | Some ids \<Rightarrow>
                        filter (\<lambda>i. i \<in> set (tagSubjectIDs nfkc db (filter_type f) tags)) ids))\<rparr>"
  unfolding fetch_filter_after[OF assms(1)]
  using assms(2)
  by (auto simp add: resolveTrending_def resolveTags_filter redis_get_def emit_def Let_def
      split: option.split)

text \<open>
  A filter without ids, sorted by trends over the cached list 3, 1: the caller's filter
  holds the ids 3, 1 after the call.
\<close>

theorem filter_ids_mutated_witness:
  "subjectList trendingWorld (animeFilter, SortTrends, 1) = None
 \<and> trendingSubjects trendingWorld (filter_type animeFilter, PeriodMonth) =
     Some ([\<lparr>item_id = 3, item_total = 9\<rparr>, \<lparr>item_id = 1, item_total = 5\<rparr>], None)
 \<and> filter_ids animeFilter = None
 \<and> filter_ids (fst (snd (fetchSubjectIDsByFilter (\<lambda>t. t) batchStore animeFilter SortTrends 1
      trendingWorld))) = Some [3, 1]"
proof -
  have h1: "subjectList trendingWorld (animeFilter, SortTrends, 1) = None"
    by (simp add: trendingWorld_def emptyWorld_def)
  have tw: "trendingSubjects trendingWorld (filter_type animeFilter, PeriodMonth) =
     Some ([\<lparr>item_id = 3, item_total = 9\<rparr>, \<lparr>item_id = 1, item_total = 5\<rparr>], None)"
    by (simp add: trendingWorld_def emptyWorld_def animeFilter_def)
  then have h2: "SortTrends = SortTrends \<longrightarrow>
      trendingSubjects trendingWorld (filter_type animeFilter, PeriodMonth) =
      Some ([\<lparr>item_id = 3, item_total = 9\<rparr>, \<lparr>item_id = 1, item_total = 5\<rparr>], None)"
    by simp
  from filter_ids_mutated[OF h1 h2, where nfkc = "\<lambda>t. t" and db = batchStore]
  show ?thesis
    using h1 tw by (simp add: animeFilter_def)
qed

end
